theory Spec2Isabelle
  imports Main "HOL-Library.Log_Nat" "HOL-Library.AList"
begin

section \<open>Python values used by the bot\<close>

text \<open>
  The four modules of the bot (\<^verbatim>\<open>arbitrage_scanner.py\<close>, \<^verbatim>\<open>mev_protector.py\<close>,
  \<^verbatim>\<open>transaction_executor.py\<close>, \<^verbatim>\<open>main.py\<close>) are embedded function by function.
  Everything a function reads from outside the process (clock readings, RPC answers,
  SHA-256) is an explicit argument. An exception is a value: a function that can raise
  returns a \<open>result\<close>. A module that uses a name it neither defines nor imports
  raises \<^verbatim>\<open>NameError\<close> where the name is evaluated: \<^verbatim>\<open>datetime\<close> in
  \<^verbatim>\<open>arbitrage_scanner.py\<close>, \<^verbatim>\<open>abi\<close> in \<^verbatim>\<open>mev_protector.py\<close>, \<^verbatim>\<open>logger\<close> and \<^verbatim>\<open>asyncio\<close> in
  \<^verbatim>\<open>transaction_executor.py\<close>.
\<close>

subsection \<open>Decimal rendering of integers in f-strings\<close>

text \<open>Python integers are unbounded: they are \<open>int\<close> here. \<open>str_digits\<close> renders a
  non-negative integer in decimal, \<open>str_int\<close> any integer, as an f-string does.\<close>

definition digit_char :: "int \<Rightarrow> char" where
  "digit_char d =
     (if d = 0 then CHR ''0'' else if d = 1 then CHR ''1'' else if d = 2 then CHR ''2''
      else if d = 3 then CHR ''3'' else if d = 4 then CHR ''4'' else if d = 5 then CHR ''5''
      else if d = 6 then CHR ''6'' else if d = 7 then CHR ''7'' else if d = 8 then CHR ''8''
      else CHR ''9'')"

function str_digits :: "int \<Rightarrow> string" where
  "str_digits n =
     (if n < 10 then [digit_char n] else str_digits (n div 10) @ [digit_char (n mod 10)])"
  by pat_completeness auto
termination
  by (relation "measure nat") auto

declare str_digits.simps [simp del]

definition str_int :: "int \<Rightarrow> string" where
  "str_int i = (if i < 0 then CHR ''-'' # str_digits (- i) else str_digits i)"

subsection \<open>Exceptions\<close>

datatype py_exception = NameError string | ZeroDivisionError | KeyError string | RpcError

text \<open>The outcome of a call: it returns a value or it raises.\<close>

datatype 'a result = Returned 'a | Raised py_exception

text \<open>One statement after the other: the second runs with the value of the first, unless
  the first raised.\<close>

definition py_bind :: "'a result \<Rightarrow> ('a \<Rightarrow> 'b result) \<Rightarrow> 'b result" where
  "py_bind r f = (case r of Returned v \<Rightarrow> f v | Raised e \<Rightarrow> Raised e)"

text \<open>\<^verbatim>\<open>try: body except Exception as e: handler\<close>.\<close>

definition try_except :: "'a result \<Rightarrow> (py_exception \<Rightarrow> 'a result) \<Rightarrow> 'a result" where
  "try_except body handler = (case body of Returned v \<Rightarrow> Returned v | Raised e \<Rightarrow> handler e)"

text \<open>\<^verbatim>\<open>int(x)\<close> of the quotient of an integer by a positive integer: towards zero.\<close>

definition py_trunc_div :: "int \<Rightarrow> int \<Rightarrow> int" where
  "py_trunc_div a b = (if 0 \<le> a then a div b else - ((- a) div b))"

subsection \<open>Floats: IEEE 754 binary64 with round-to-nearest-even\<close>

text \<open>
  A Python \<^verbatim>\<open>float\<close> is a binary64 number. Its value is kept as a rational, and every
  arithmetic operation is the exact operation followed by \<open>fl64\<close>, the rounding to 53
  significant bits, ties to even. The exponent range is not bounded here: the model
  agrees with Python wherever a result is a normal binary64 number (magnitude between
  \<open>2\<^sup>-\<^sup>1\<^sup>0\<^sup>2\<^sup>2\<close> and \<open>2\<^sup>1\<^sup>0\<^sup>2\<^sup>4\<close>), which covers prices, trade sizes and gas prices.
\<close>

type_synonym pyfloat = rat

definition round_half_even :: "rat \<Rightarrow> int" where
  "round_half_even x =
     (let n = \<lfloor>x\<rfloor>; r = x - of_int n in
      if r < 1 / 2 then n else if 1 / 2 < r then n + 1 else if even n then n else n + 1)"

text \<open>\<open>ilog2 x\<close> is \<open>\<lfloor>log\<^sub>2 x\<rfloor>\<close> for positive \<open>x\<close>, computed from the bit lengths of numerator
  and denominator.\<close>

definition ilog2 :: "rat \<Rightarrow> int" where
  "ilog2 x =
     (let (p, q) = quotient_of x; k = bitlen p - bitlen q in
      if power_int 2 k \<le> x then k else k - 1)"

definition fl64 :: "rat \<Rightarrow> pyfloat" where
  "fl64 x =
     (if x = 0 then 0
      else let e = ilog2 \<bar>x\<bar> - 52 in
           of_int (round_half_even (x / power_int 2 e)) * power_int 2 e)"

text \<open>\<^verbatim>\<open>float(n)\<close> as it happens implicitly in \<^verbatim>\<open>n * x\<close> with an int \<^verbatim>\<open>n\<close>.\<close>

definition float_of_int :: "int \<Rightarrow> pyfloat" where
  "float_of_int n = fl64 (of_int n)"

definition fmul :: "pyfloat \<Rightarrow> pyfloat \<Rightarrow> pyfloat" where
  "fmul x y = fl64 (x * y)"

definition fsub :: "pyfloat \<Rightarrow> pyfloat \<Rightarrow> pyfloat" where
  "fsub x y = fl64 (x - y)"

text \<open>Division; the caller handles a zero divisor (\<^verbatim>\<open>ZeroDivisionError\<close>) before calling.\<close>

definition fdiv :: "pyfloat \<Rightarrow> pyfloat \<Rightarrow> pyfloat" where
  "fdiv x y = fl64 (x / y)"

text \<open>\<^verbatim>\<open>int(x)\<close> truncates towards zero.\<close>

definition py_int :: "pyfloat \<Rightarrow> int" where
  "py_int x = (if 0 \<le> x then \<lfloor>x\<rfloor> else \<lceil>x\<rceil>)"

subsection \<open>\<^verbatim>\<open>max(iterable, key=...)\<close> and negative slices\<close>

text \<open>Python's \<^verbatim>\<open>max\<close> keeps the first item whose key is maximal: a later item replaces
  the current best only when its key is strictly greater.\<close>

fun py_max_key :: "('a \<Rightarrow> int) \<Rightarrow> 'a \<Rightarrow> 'a list \<Rightarrow> 'a" where
  "py_max_key key best [] = best"
| "py_max_key key best (x # xs) = py_max_key key (if key best < key x then x else best) xs"


section \<open>The scanner (\<^verbatim>\<open>arbitrage_scanner.py\<close>)\<close>

record trading_pair =
  base :: string
  quote :: string

text \<open>The \<^verbatim>\<open>trading\<close> section of the configuration, as far as the scanner reads it.\<close>

record scan_config =
  min_price_diff :: pyfloat
  default_trade_size :: int
  dex_fee_percent :: pyfloat
  enabled_routers :: "string list"

text \<open>\<^verbatim>\<open>_calculate_expected_profit\<close>. A zero \<^verbatim>\<open>buy_price\<close> raises
  \<^verbatim>\<open>ZeroDivisionError\<close> inside the \<^verbatim>\<open>try\<close>, and the handler returns \<^verbatim>\<open>0\<close>.\<close>

definition calculate_expected_profit :: "pyfloat \<Rightarrow> int \<Rightarrow> pyfloat \<Rightarrow> pyfloat \<Rightarrow> int" where
  "calculate_expected_profit fee_percent trade_size buy_price sell_price =
     (if buy_price = 0 then 0
      else
        let buy_amount = trade_size;
            sell_amount = fdiv (fmul (float_of_int buy_amount) sell_price) buy_price;
            sell_amount = fmul sell_amount (fsub 1 fee_percent);
            expected_profit = fsub sell_amount (float_of_int buy_amount)
        in py_int (fmul expected_profit (float_of_int (10 ^ 18))))"

text \<open>The opportunity dictionary that \<^verbatim>\<open>_scan_pair\<close> writes down and that
  \<^verbatim>\<open>_process_opportunity\<close> and the protector read.\<close>

record opportunity =
  base_asset :: string
  quote_asset :: string
  direction :: string
  buy_router :: string
  sell_router :: string
  buy_path :: "string list"
  sell_path :: "string list"
  buy_price :: pyfloat
  sell_price :: pyfloat
  price_diff_percent :: pyfloat
  expected_profit :: int
  trade_size :: int
  discovery_time :: string

text \<open>What \<^verbatim>\<open>getAmountsOut(amount_in, path).call()\<close> on a router does: it raises, or it
  returns the list of amounts.\<close>

datatype call_result = CallRaised | Amounts "int list"

text \<open>\<^verbatim>\<open>_get_price_from_api\<close>: the fallback, a fixed price \<^verbatim>\<open>1.0\<close>.\<close>

definition get_price_from_api :: "trading_pair \<Rightarrow> string \<Rightarrow> pyfloat" where
  "get_price_from_api pair router_address = 1"

text \<open>\<^verbatim>\<open>_get_price_from_router\<close>: \<^verbatim>\<open>amounts[1] / 10**18\<close> when the call returns at least two
  amounts, \<^verbatim>\<open>0\<close> when it returns fewer, and the fallback price when the call raises
  (the handler logs with the module's logger, which is defined, and calls the
  fallback).\<close>

definition get_price_from_router ::
  "(string list \<Rightarrow> string \<Rightarrow> call_result) \<Rightarrow> trading_pair \<Rightarrow> string \<Rightarrow> pyfloat" where
  "get_price_from_router get_amounts_out pair router_address =
     (case get_amounts_out [base pair, quote pair] router_address of
        Amounts amounts \<Rightarrow>
          if 2 \<le> length amounts then fl64 (of_int (amounts ! 1) / of_int (10 ^ 18)) else 0
      | CallRaised \<Rightarrow> get_price_from_api pair router_address)"

text \<open>\<^verbatim>\<open>_get_prices_for_pair\<close>: one quote for every enabled router whose price is positive,
  in the order of the configuration. After \<^verbatim>\<open>prices.append\<close> the body evaluates
  \<^verbatim>\<open>datetime.now()\<close> for the last-price cache; the \<^verbatim>\<open>NameError\<close> is caught by the
  \<^verbatim>\<open>except\<close> of the same iteration, so the cache stays empty and the list of quotes is
  not affected.\<close>

fun get_prices_for_pair ::
  "(string list \<Rightarrow> string \<Rightarrow> call_result) \<Rightarrow> trading_pair \<Rightarrow> string list \<Rightarrow> (string \<times> pyfloat) list" where
  "get_prices_for_pair get_amounts_out pair [] = []"
| "get_prices_for_pair get_amounts_out pair (router_address # routers) =
     (let price = get_price_from_router get_amounts_out pair router_address in
      (if 0 < price then [(router_address, price)] else [])
        @ get_prices_for_pair get_amounts_out pair routers)"

text \<open>The body of the inner loop of \<^verbatim>\<open>_scan_pair\<close> for the quotes \<open>(router1, price1)\<close>
  and \<open>(router2, price2)\<close>; the value returned is what the iteration appends to
  \<^verbatim>\<open>opportunities\<close>. A \<^verbatim>\<open>continue\<close> and an unprofitable pair append nothing. For a
  profitable pair the dictionary is written down entry by entry, and the entry
  \<^verbatim>\<open>'discovery_time': datetime.now().isoformat()\<close> raises \<^verbatim>\<open>NameError\<close>: nothing is
  appended and the exception leaves \<^verbatim>\<open>_scan_pair\<close>.\<close>

definition compare_routers ::
  "scan_config \<Rightarrow> trading_pair \<Rightarrow> string \<times> pyfloat \<Rightarrow> string \<times> pyfloat \<Rightarrow> opportunity list result" where
  "compare_routers cfg pair q1 q2 =
     (let router1 = fst q1; price1 = snd q1; router2 = fst q2; price2 = snd q2 in
      if router1 = router2 then Returned []
      else if min price1 price2 = 0 then Raised ZeroDivisionError
      else
        let price_diff = \<bar>fsub price1 price2\<bar>;
            price_diff_percent' = fdiv price_diff (min price1 price2)
        in
        if price_diff_percent' < min_price_diff cfg then Returned []
        else
          let buy_router' = (if price1 < price2 then router1 else router2);
              sell_router' = (if price1 < price2 then router2 else router1);
              buy_price' = (if price1 < price2 then price1 else price2);
              sell_price' = (if price1 < price2 then price2 else price1);
              trade_size' = default_trade_size cfg;
              expected_profit' =
                calculate_expected_profit (dex_fee_percent cfg) trade_size' buy_price' sell_price'
          in
          if 0 < expected_profit' then Raised (NameError ''datetime'') else Returned [])"

text \<open>The inner loop \<^verbatim>\<open>for j, (router2, price2) in enumerate(prices[i+1:], i+1)\<close>, with the
  list \<^verbatim>\<open>opportunities\<close> as accumulator; an exception leaves the loops.\<close>

fun scan_inner ::
  "scan_config \<Rightarrow> trading_pair \<Rightarrow> string \<times> pyfloat \<Rightarrow> (string \<times> pyfloat) list
     \<Rightarrow> opportunity list \<Rightarrow> opportunity list result" where
  "scan_inner cfg pair q1 [] opportunities = Returned opportunities"
| "scan_inner cfg pair q1 (q2 # rest) opportunities =
     (case compare_routers cfg pair q1 q2 of
        Raised e \<Rightarrow> Raised e
      | Returned found \<Rightarrow> scan_inner cfg pair q1 rest (opportunities @ found))"

text \<open>The outer loop \<^verbatim>\<open>for i, (router1, price1) in enumerate(prices)\<close>.\<close>

fun scan_outer ::
  "scan_config \<Rightarrow> trading_pair \<Rightarrow> (string \<times> pyfloat) list
     \<Rightarrow> opportunity list \<Rightarrow> opportunity list result" where
  "scan_outer cfg pair [] opportunities = Returned opportunities"
| "scan_outer cfg pair (q1 # rest) opportunities =
     (case scan_inner cfg pair q1 rest opportunities of
        Raised e \<Rightarrow> Raised e
      | Returned opportunities' \<Rightarrow> scan_outer cfg pair rest opportunities')"

text \<open>\<^verbatim>\<open>_scan_pair\<close>: fetch the quotes, skip the pair when fewer than two remain, compare
  every two routers.\<close>

definition scan_pair ::
  "scan_config \<Rightarrow> (string list \<Rightarrow> string \<Rightarrow> call_result) \<Rightarrow> trading_pair
     \<Rightarrow> opportunity list result" where
  "scan_pair cfg get_amounts_out pair =
     (let prices = get_prices_for_pair get_amounts_out pair (enabled_routers cfg) in
      if length prices < 2 then Returned [] else scan_outer cfg pair prices [])"

text \<open>The loop \<^verbatim>\<open>for pair in self.trading_pairs\<close> of \<^verbatim>\<open>scan_opportunities\<close>: a pair whose
  scan raises is logged and adds nothing.\<close>

fun scan_pairs ::
  "scan_config \<Rightarrow> (string list \<Rightarrow> string \<Rightarrow> call_result) \<Rightarrow> trading_pair list
     \<Rightarrow> opportunity list" where
  "scan_pairs cfg get_amounts_out [] = []"
| "scan_pairs cfg get_amounts_out (pair # pairs) =
     (case scan_pair cfg get_amounts_out pair of
        Raised e \<Rightarrow> []
      | Returned pair_opportunities \<Rightarrow> pair_opportunities)
       @ scan_pairs cfg get_amounts_out pairs"

text \<open>\<^verbatim>\<open>scan_opportunities\<close>. After the loop over the pairs, a non-empty list is entered
  into the discovery history with \<^verbatim>\<open>datetime.now()\<close>: the \<^verbatim>\<open>NameError\<close> is caught by
  the outer handler, which returns the empty list. (The counters are statistics.)\<close>

definition scan_opportunities ::
  "scan_config \<Rightarrow> (string list \<Rightarrow> string \<Rightarrow> call_result) \<Rightarrow> trading_pair list
     \<Rightarrow> opportunity list" where
  "scan_opportunities cfg get_amounts_out pairs =
     (let opportunities = scan_pairs cfg get_amounts_out pairs in
      case (if opportunities = [] then Returned opportunities
            else Raised (NameError ''datetime'')) of
        Returned found \<Rightarrow> found
      | Raised e \<Rightarrow> [])"

text \<open>The expected profit as the specification words it: \<open>sellAmount = tradeSize *
  sellPrice / buyPrice\<close>, then \<open>sellAmount *= (1 - feePercent)\<close>, \<open>profit = sellAmount -
  tradeSize\<close>, converted to minor units of \<open>10\<^sup>-\<^sup>1\<^sup>8\<close>; \<open>rnd\<close> is applied to the result of
  every operation. With the identity for \<open>rnd\<close> this is the formula in exact arithmetic.\<close>

definition spec_profit :: "(rat \<Rightarrow> rat) \<Rightarrow> rat \<Rightarrow> rat \<Rightarrow> rat \<Rightarrow> rat \<Rightarrow> rat" where
  "spec_profit rnd feePercent tradeSize buyPrice sellPrice =
     (let sellAmount = rnd (rnd (tradeSize * sellPrice) / buyPrice);
          sellAmount = rnd (sellAmount * rnd (1 - feePercent));
          profit = rnd (sellAmount - tradeSize)
      in rnd (profit * 10 ^ 18))"

definition spec_expected_profit :: "rat \<Rightarrow> rat \<Rightarrow> rat \<Rightarrow> rat \<Rightarrow> rat" where
  "spec_expected_profit feePercent tradeSize buyPrice sellPrice =
     (tradeSize * sellPrice / buyPrice * (1 - feePercent) - tradeSize) * 10 ^ 18"

section \<open>The MEV protector (\<^verbatim>\<open>mev_protector.py\<close>)\<close>

text \<open>\<^verbatim>\<open>hashlib.sha256\<close> is a library function: its two views, the digest bytes and the
  hexadecimal digest of a string, are arguments of the model.\<close>

record hashlib =
  sha256_digest :: "string \<Rightarrow> int list"
  sha256_hexdigest :: "string \<Rightarrow> string"

text \<open>\<^verbatim>\<open>int.from_bytes(bs, 'big')\<close>.\<close>

definition from_bytes_big :: "int list \<Rightarrow> int" where
  "from_bytes_big bs = foldl (\<lambda>acc b. acc * 256 + b) 0 bs"

text \<open>\<^verbatim>\<open>_generate_unique_nonce\<close>: the first eight bytes of the SHA-256 of base asset, quote
  asset and \<^verbatim>\<open>time.time_ns()\<close>.\<close>

definition generate_unique_nonce :: "hashlib \<Rightarrow> int \<Rightarrow> opportunity \<Rightarrow> int" where
  "generate_unique_nonce hl time_ns opp =
     (let data = base_asset opp @ quote_asset opp @ str_int time_ns;
          hash_bytes = sha256_digest hl data
      in from_bytes_big (take 8 hash_bytes))"

text \<open>\<^verbatim>\<open>_calculate_max_gas_price\<close>: \<^verbatim>\<open>int(current_gas * 1.2)\<close> is a binary64 product,
  truncated; \<open>None\<close> is a configuration without \<^verbatim>\<open>max_gas_price_absolute\<close>.\<close>

definition calculate_max_gas_price :: "int option \<Rightarrow> int \<Rightarrow> int" where
  "calculate_max_gas_price max_gas_price_absolute current_gas =
     (let max_gas = py_int (fmul (float_of_int current_gas) (fl64 (12 / 10)));
          absolute_max = (case max_gas_price_absolute of None \<Rightarrow> 500 * 10 ^ 9 | Some a \<Rightarrow> a)
      in min max_gas absolute_max)"

text \<open>The protected opportunity: the copied dictionary with the keys that
  \<^verbatim>\<open>protect_opportunity\<close> adds.\<close>

record protected_opportunity = opportunity +
  nonce :: int
  timestamp :: int
  max_gas_price :: int
  signature :: string
  tx_hash :: string

text \<open>\<^verbatim>\<open>_create_eip712_signature\<close>: the dictionary \<^verbatim>\<open>message\<close> is written down entry by
  entry, and the entry \<^verbatim>\<open>'buyPathHash': Web3.keccak(abi.encode(...))\<close> evaluates the name
  \<^verbatim>\<open>abi\<close>, which the module does not define. The call raises before the signer is
  asked.\<close>

definition create_eip712_signature :: "protected_opportunity \<Rightarrow> string result" where
  "create_eip712_signature opp = Raised (NameError ''abi'')"

text \<open>\<^verbatim>\<open>_calculate_tx_hash\<close>: the string that is hashed, five fields rendered one after the
  other with nothing between them, and its SHA-256.\<close>

definition tx_hash_data :: "string \<Rightarrow> protected_opportunity \<Rightarrow> string" where
  "tx_hash_data executor_address opp =
     base_asset opp @ str_int (trade_size opp) @ str_int (nonce opp)
       @ str_int (timestamp opp) @ executor_address"

definition calculate_tx_hash :: "hashlib \<Rightarrow> string \<Rightarrow> protected_opportunity \<Rightarrow> string" where
  "calculate_tx_hash hl executor_address opp = sha256_hexdigest hl (tx_hash_data executor_address opp)"

text \<open>What one call of \<^verbatim>\<open>protect_opportunity\<close> reads from outside: the two clocks and
  the gas price (\<open>None\<close>: the RPC call raises).\<close>

record protect_env =
  pe_time_ns :: int
  pe_time :: int
  pe_gas_price :: "int option"

text \<open>The protector's own state: the dictionary \<^verbatim>\<open>pending_transactions\<close>, keyed by
  \<^verbatim>\<open>tx_hash\<close>, and the counter \<^verbatim>\<open>protected_txs\<close>.\<close>

record mev_state =
  pending_transactions :: "(string \<times> protected_opportunity) list"
  protected_txs :: nat

text \<open>\<^verbatim>\<open>protect_opportunity\<close>, statement by statement: nonce, timestamp, gas ceiling,
  signature, hash, and the entry in \<^verbatim>\<open>pending_transactions\<close> (an assignment, which
  replaces an entry with the same hash). The state is written last, so a call that
  raises leaves it as it was.\<close>

definition protect_opportunity ::
  "hashlib \<Rightarrow> int option \<Rightarrow> string \<Rightarrow> protect_env \<Rightarrow> opportunity \<Rightarrow> mev_state
     \<Rightarrow> (protected_opportunity \<times> mev_state) result" where
  "protect_opportunity hl max_gas_price_absolute executor_address env opp st =
     (let nonce' = generate_unique_nonce hl (pe_time_ns env) opp;
          timestamp' = pe_time env
      in
      case pe_gas_price env of
        None \<Rightarrow> Raised RpcError
      | Some current_gas \<Rightarrow>
          let max_gas_price' = calculate_max_gas_price max_gas_price_absolute current_gas;
              unsigned = opportunity.extend opp
                (protected_opportunity.fields nonce' timestamp' max_gas_price' [] [])
          in
          py_bind (create_eip712_signature unsigned) (\<lambda>signature'.
            let signed = unsigned\<lparr>signature := signature'\<rparr>;
                tx_hash' = calculate_tx_hash hl executor_address signed;
                protected = signed\<lparr>tx_hash := tx_hash'\<rparr>
            in Returned (protected,
                 st\<lparr>pending_transactions :=
                      AList.update tx_hash' protected (pending_transactions st),
                    protected_txs := protected_txs st + 1\<rparr>)))"

section \<open>The transaction executor (\<^verbatim>\<open>transaction_executor.py\<close>)\<close>

text \<open>The module uses the names \<^verbatim>\<open>logger\<close> and \<^verbatim>\<open>asyncio\<close> and defines neither: a
  statement \<^verbatim>\<open>logger.info(...)\<close> or \<^verbatim>\<open>await asyncio.sleep(...)\<close> raises \<^verbatim>\<open>NameError\<close>.\<close>

definition executor_logger :: "unit result" where
  "executor_logger = Raised (NameError ''logger'')"

definition executor_asyncio_sleep :: "unit result" where
  "executor_asyncio_sleep = Raised (NameError ''asyncio'')"

text \<open>\<^verbatim>\<open>_send_private_transaction\<close> and \<^verbatim>\<open>_send_regular_transaction\<close>; \<open>send_raw\<close> is what
  \<^verbatim>\<open>send_raw_transaction\<close> does, \<open>None\<close> when it raises and the hash otherwise. In the
  \<^verbatim>\<open>try\<close> block the hash is logged and returned; the handler logs and returns
  \<^verbatim>\<open>None\<close>.\<close>

definition send_private_transaction :: "string option \<Rightarrow> string option result" where
  "send_private_transaction send_raw =
     try_except
       (case send_raw of
          None \<Rightarrow> Raised RpcError
        | Some h \<Rightarrow> py_bind executor_logger (\<lambda>_. Returned (Some h)))
       (\<lambda>e. py_bind executor_logger (\<lambda>_. Returned None))"

definition send_regular_transaction :: "string option \<Rightarrow> string option result" where
  "send_regular_transaction send_raw =
     try_except
       (case send_raw of
          None \<Rightarrow> Raised RpcError
        | Some h \<Rightarrow> py_bind executor_logger (\<lambda>_. Returned (Some h)))
       (\<lambda>e. py_bind executor_logger (\<lambda>_. Returned None))"

text \<open>One call of \<^verbatim>\<open>get_transaction_receipt\<close>: no receipt yet, an exception, or a
  receipt with its \<^verbatim>\<open>status\<close>.\<close>

datatype poll = NoReceipt | PollRaised | Receipt int

text \<open>The \<^verbatim>\<open>try\<close> statement in the loop of \<^verbatim>\<open>_wait_for_execution\<close>: \<open>Some flag\<close> is a
  \<^verbatim>\<open>return flag\<close> from inside it, \<open>None\<close> is falling through to the sleep. Each branch
  logs before it returns, and the handler logs too.\<close>

definition poll_receipt :: "poll \<Rightarrow> bool option result" where
  "poll_receipt p =
     try_except
       (case p of
          PollRaised \<Rightarrow> Raised RpcError
        | NoReceipt \<Rightarrow> Returned None
        | Receipt receipt_status \<Rightarrow>
            if receipt_status = 1 then py_bind executor_logger (\<lambda>_. Returned (Some True))
            else py_bind executor_logger (\<lambda>_. Returned (Some False)))
       (\<lambda>e. py_bind executor_logger (\<lambda>_. Returned None))"

text \<open>\<^verbatim>\<open>_wait_for_execution\<close>, with time in milliseconds. \<open>elapsed\<close> is
  \<^verbatim>\<open>time.time() - start_time\<close> at the head of the loop and \<open>k\<close> counts the polls. After a
  poll without result comes \<^verbatim>\<open>await asyncio.sleep(0.5)\<close>, and after the sleep the head
  of the loop again, 500 ms and the overrun of the sleep later. When the time is up the
  timeout is logged and \<^verbatim>\<open>False\<close> returned.\<close>

function wait_for_execution ::
  "(nat \<Rightarrow> poll) \<Rightarrow> (nat \<Rightarrow> nat) \<Rightarrow> int \<Rightarrow> int \<Rightarrow> nat \<Rightarrow> bool result" where
  "wait_for_execution polls overrun timeout elapsed k =
     (if elapsed < timeout then
        (case poll_receipt (polls k) of
           Raised e \<Rightarrow> Raised e
         | Returned (Some flag) \<Rightarrow> Returned flag
         | Returned None \<Rightarrow>
             (case executor_asyncio_sleep of
                Raised e \<Rightarrow> Raised e
              | Returned _ \<Rightarrow>
                  wait_for_execution polls overrun timeout (elapsed + 500 + int (overrun k)) (Suc k)))
      else py_bind executor_logger (\<lambda>_. Returned False))"
  by pat_completeness auto
termination
  by (relation "measure (\<lambda>(polls, overrun, timeout, elapsed, k). nat (timeout - elapsed))") auto

declare wait_for_execution.simps [simp del]

datatype trade_status = Pending | Executing | Success | Failed

text \<open>The trade dictionary; a key that may be absent is an option.\<close>

record trade =
  trade_id :: string
  trade_opportunity :: protected_opportunity
  status :: trade_status
  created_at :: int
  estimated_profit :: int
  execution_start :: "int option"
  execution_end :: "int option"
  execution_time :: "int option"
  trade_tx_hash :: "string option"
  actual_profit :: "int option"

text \<open>What one call of \<^verbatim>\<open>execute_trade\<close> meets: whether building and signing the
  transaction go through, what \<^verbatim>\<open>send_raw_transaction\<close> does, the polls of the receipt,
  and the time the call took.\<close>

record exec_env =
  ee_build_and_sign :: bool
  ee_send :: "string option"
  ee_polls :: "nat \<Rightarrow> poll"
  ee_overrun :: "nat \<Rightarrow> nat"
  ee_elapsed :: int

text \<open>The \<^verbatim>\<open>try\<close> block of \<^verbatim>\<open>execute_trade\<close>: the outcome and the trade dictionary as
  the block leaves it. The hash is stored in the dictionary before the wait.
  \<^verbatim>\<open>_calculate_actual_profit\<close> returns \<^verbatim>\<open>0\<close>.\<close>

definition execute_trade_body :: "bool \<Rightarrow> exec_env \<Rightarrow> trade \<Rightarrow> bool result \<times> trade" where
  "execute_trade_body use_private_tx env t =
     (if \<not> ee_build_and_sign env then (Raised RpcError, t)
      else
        case (if use_private_tx then send_private_transaction (ee_send env)
              else send_regular_transaction (ee_send env)) of
          Raised e \<Rightarrow> (Raised e, t)
        | Returned None \<Rightarrow> (Returned False, t)
        | Returned (Some h) \<Rightarrow>
            if h = [] then (Returned False, t)
            else
              let t1 = t\<lparr>trade_tx_hash := Some h\<rparr> in
              (case wait_for_execution (ee_polls env) (ee_overrun env) 120000 0 0 of
                 Raised e \<Rightarrow> (Raised e, t1)
               | Returned success \<Rightarrow>
                   if success then
                     (Returned True,
                      t1\<lparr>status := Success, execution_time := Some (ee_elapsed env),
                         actual_profit := Some 0\<rparr>)
                   else (Returned False, t1\<lparr>status := Failed\<rparr>)))"

text \<open>\<^verbatim>\<open>execute_trade\<close>: the \<^verbatim>\<open>try\<close> block, and the handler
  \<^verbatim>\<open>except Exception as e: logger.error(...); return False\<close>.\<close>

definition execute_trade :: "bool \<Rightarrow> exec_env \<Rightarrow> trade \<Rightarrow> bool result \<times> trade" where
  "execute_trade use_private_tx env t =
     (case execute_trade_body use_private_tx env t of
        (Returned flag, t') \<Rightarrow> (Returned flag, t')
      | (Raised e, t') \<Rightarrow> (py_bind executor_logger (\<lambda>_. Returned False), t'))"

text \<open>\<^verbatim>\<open>estimate_gas_cost\<close>: \<^verbatim>\<open>gas_price * 500000\<close>; when reading the gas price raises
  (\<open>None\<close>), the handler logs and returns \<^verbatim>\<open>0\<close>.\<close>

definition estimate_gas_cost :: "int option \<Rightarrow> int result" where
  "estimate_gas_cost gas_price_reading =
     try_except
       (case gas_price_reading of
          None \<Rightarrow> Raised RpcError
        | Some gas_price \<Rightarrow> Returned (gas_price * 500000))
       (\<lambda>e. py_bind executor_logger (\<lambda>_. Returned 0))"

section \<open>The bot (\<^verbatim>\<open>main.py\<close>)\<close>

text \<open>
  A trade is a Python dictionary, an object that the table \<^verbatim>\<open>active_trades\<close>, the list
  \<^verbatim>\<open>trade_history\<close> and the local variable \<^verbatim>\<open>best_trade\<close> of the execution loop all
  refer to. The model keeps the objects in a store, \<open>heap\<close>, and a reference is an
  index into it; a new dictionary is appended to the store. \<^verbatim>\<open>active_trades\<close> is an
  association list in insertion order, as a Python \<^verbatim>\<open>dict\<close> iterates: assigning to an
  existing key keeps the key's place, a new key goes to the end.
\<close>

record bot_config =
  min_profit :: int
  max_gas_price_absolute :: "int option"
  executor_address :: string
  use_private_tx :: bool
  sha256 :: hashlib

record bot_state =
  heap :: "trade list"
  active_trades :: "(string \<times> nat) list"
  trade_history :: "nat list"
  best_trade :: "nat option"
  trades_executed :: nat
  trades_successful :: nat
  mev :: mev_state


text \<open>What one call of \<^verbatim>\<open>_process_opportunity\<close> reads from outside: the gas price for
  the cost estimate, what the protector reads, and the two readings of
  \<^verbatim>\<open>datetime.now()\<close> (for the id and for \<^verbatim>\<open>created_at\<close>), in microseconds since the
  epoch.\<close>

record admit_env =
  ae_gas_price :: "int option"
  ae_protect :: protect_env
  ae_now_id :: int
  ae_now_created :: int

text \<open>The \<^verbatim>\<open>try\<close> block of \<^verbatim>\<open>_process_opportunity\<close>: the state it leaves when it runs to
  its end, or the exception. \<^verbatim>\<open>int(datetime.now().timestamp())\<close> is the reading in
  whole seconds, truncated towards zero.\<close>

definition process_opportunity_body ::
  "bot_config \<Rightarrow> admit_env \<Rightarrow> opportunity \<Rightarrow> bot_state \<Rightarrow> bot_state result" where
  "process_opportunity_body cfg env opp s =
     py_bind (estimate_gas_cost (ae_gas_price env)) (\<lambda>gas_cost.
       let net_profit = expected_profit opp - gas_cost in
       if net_profit < min_profit cfg then Returned s
       else
         py_bind (protect_opportunity (sha256 cfg) (max_gas_price_absolute cfg)
                    (executor_address cfg) (ae_protect env) opp (mev s))
           (\<lambda>protected. 
              let protected_opportunity = fst protected; mev' = snd protected;
                  trade_id' = base_asset opp @ ''_''
                                @ str_int (py_trunc_div (ae_now_id env) 1000000);
                  new_trade =
                    \<lparr>trade_id = trade_id', trade_opportunity = protected_opportunity,
                     status = Pending, created_at = ae_now_created env,
                     estimated_profit = net_profit,
                     execution_start = None, execution_end = None, execution_time = None,
                     trade_tx_hash = None, actual_profit = None\<rparr>
              in Returned
                   (s\<lparr>heap := heap s @ [new_trade],
                      active_trades := AList.update trade_id' (length (heap s)) (active_trades s),
                      mev := mev'\<rparr>)))"

text \<open>\<^verbatim>\<open>_process_opportunity\<close>: the handler
  \<^verbatim>\<open>except Exception as e: logger.error(...)\<close> (the logger of \<^verbatim>\<open>main.py\<close>, which is
  defined) ends the call; what the block had not yet written stays unwritten.\<close>

definition process_opportunity :: "bot_config \<Rightarrow> admit_env \<Rightarrow> opportunity \<Rightarrow> bot_state \<Rightarrow> bot_state" where
  "process_opportunity cfg env opp s =
     (case process_opportunity_body cfg env opp s of
        Returned s' \<Rightarrow> s'
      | Raised e \<Rightarrow> s)"

text \<open>The trades of the table whose status is \<^verbatim>\<open>'pending'\<close>, in the order of the table.\<close>

definition pending_trades :: "bot_state \<Rightarrow> nat list" where
  "pending_trades s = filter (\<lambda>r. status (heap s ! r) = Pending) (map snd (active_trades s))"

text \<open>\<^verbatim>\<open>max(pending_trades, key=lambda x: x['estimated_profit'])\<close> on a non-empty list.\<close>

definition select_best :: "('a \<Rightarrow> int) \<Rightarrow> 'a list \<Rightarrow> 'a option" where
  "select_best key xs = (case xs of [] \<Rightarrow> None | x # rest \<Rightarrow> Some (py_max_key key x rest))"

text \<open>An iteration of \<^verbatim>\<open>_run_execution_loop\<close> up to the call of \<^verbatim>\<open>execute_trade\<close>: select
  the best pending trade, set its status to \<^verbatim>\<open>'executing'\<close>, note the start time.
  \<open>best_trade\<close> is the local variable of the iteration; between two iterations it is
  unset.\<close>

definition run_execution_loop_select :: "int \<Rightarrow> bot_state \<Rightarrow> bot_state" where
  "run_execution_loop_select now s =
     (case best_trade s of
        Some _ \<Rightarrow> s
      | None \<Rightarrow>
          (case select_best (\<lambda>r. estimated_profit (heap s ! r)) (pending_trades s) of
             None \<Rightarrow> s
           | Some b \<Rightarrow>
               s\<lparr>heap := (heap s)[b := (heap s ! b)\<lparr>status := Executing, execution_start := Some now\<rparr>],
                 best_trade := Some b\<rparr>))"

text \<open>The lines after a call of \<^verbatim>\<open>execute_trade\<close> that returned \<open>success\<close> and left the
  trade dictionary as \<open>t1\<close>: the status becomes \<^verbatim>\<open>'success'\<close> or \<^verbatim>\<open>'failed'\<close>, the end
  time and the duration are recorded, the trade is appended to \<^verbatim>\<open>trade_history\<close> and
  the entry under its id is deleted from \<^verbatim>\<open>active_trades\<close>. \<^verbatim>\<open>del\<close> on a missing key
  raises \<^verbatim>\<open>KeyError\<close>: the handler of the loop logs it, and the counter
  \<^verbatim>\<open>trades_executed\<close> is not reached.\<close>

definition run_execution_loop_finalize :: "bool \<Rightarrow> trade \<Rightarrow> int \<Rightarrow> nat \<Rightarrow> bot_state \<Rightarrow> bot_state" where
  "run_execution_loop_finalize success t1 now b s =
     (let t2 = t1\<lparr>status := (if success then Success else Failed),
                 execution_end := Some now,
                 execution_time :=
                   (case execution_start t1 of
                      None \<Rightarrow> None
                    | Some started \<Rightarrow> Some (now - started))\<rparr>;
          s1 = s\<lparr>heap := (heap s)[b := t2],
                trades_successful := trades_successful s + (if success then 1 else 0),
                trade_history := trade_history s @ [b],
                best_trade := None\<rparr>
      in
      if trade_id t2 \<in> fst ` set (active_trades s1) then
        s1\<lparr>active_trades := AList.delete (trade_id t2) (active_trades s1),
           trades_executed := trades_executed s1 + 1\<rparr>
      else s1)"

text \<open>One iteration of \<^verbatim>\<open>_run_execution_loop\<close>. Nothing in it suspends before
  \<^verbatim>\<open>execute_trade\<close> has returned or raised, so no other loop runs in between. When
  \<^verbatim>\<open>execute_trade\<close> raises, the handler \<^verbatim>\<open>except Exception as e\<close> of the loop logs the
  error (with the logger of \<^verbatim>\<open>main.py\<close>) and sleeps: the lines after the call are
  skipped, and the trade dictionary stays as \<^verbatim>\<open>execute_trade\<close> left it.\<close>

definition run_execution_loop_pass :: "bot_config \<Rightarrow> exec_env \<Rightarrow> int \<Rightarrow> int \<Rightarrow> bot_state \<Rightarrow> bot_state" where
  "run_execution_loop_pass cfg env now now_end s =
     (let s1 = run_execution_loop_select now s in
      case best_trade s1 of
        None \<Rightarrow> s1
      | Some b \<Rightarrow>
          (case execute_trade (use_private_tx cfg) env (heap s1 ! b) of
             (Raised e, t1) \<Rightarrow> s1\<lparr>heap := (heap s1)[b := t1], best_trade := None\<rparr>
           | (Returned success, t1) \<Rightarrow> run_execution_loop_finalize success t1 now_end b s1))"

text \<open>The steps of the scanning loop and of the execution loop, the only two that write
  the trade table. The loops run in one thread and interleave at suspension points
  only: a run is a sequence of these steps.\<close>

datatype event =
  ProcessOpportunity admit_env opportunity
| ExecutionPass exec_env int int

fun bot_step :: "bot_config \<Rightarrow> event \<Rightarrow> bot_state \<Rightarrow> bot_state" where
  "bot_step cfg (ProcessOpportunity env opp) s = process_opportunity cfg env opp s"
| "bot_step cfg (ExecutionPass env now now_end) s = run_execution_loop_pass cfg env now now_end s"

definition run :: "bot_config \<Rightarrow> event list \<Rightarrow> bot_state \<Rightarrow> bot_state" where
  "run cfg events s = fold (bot_step cfg) events s"




section \<open>Concrete inputs\<close>



text \<open>The environment of a call of \<^verbatim>\<open>_process_opportunity\<close> at \<open>now\<close> microseconds, with a
  gas price of 30 Gwei.\<close>

definition admit_at :: "int \<Rightarrow> admit_env" where
  "admit_at now =
     \<lparr>ae_gas_price = Some (30 * 10 ^ 9),
      ae_protect = \<lparr>pe_time_ns = now * 1000, pe_time = py_trunc_div now 1000000,
                    pe_gas_price = Some (30 * 10 ^ 9)\<rparr>,
      ae_now_id = now, ae_now_created = now\<rparr>"










text \<open>A trading pair, and three routers: the call on \<^verbatim>\<open>0xR1\<close> raises, \<^verbatim>\<open>0xR2\<close> returns
  \<open>1.05\<close> units of the quote asset for one unit of the base asset, \<^verbatim>\<open>0xR3\<close> returns a
  single amount; any other router returns the amount zero.\<close>

definition example_pair :: trading_pair where
  "example_pair = \<lparr>base = ''0xA'', quote = ''0xQ''\<rparr>"

definition example_get_amounts_out :: "string list \<Rightarrow> string \<Rightarrow> call_result" where
  "example_get_amounts_out path router_address =
     (if router_address = ''0xR1'' then CallRaised
      else if router_address = ''0xR2'' then Amounts [10 ^ 18, 105 * 10 ^ 16]
      else if router_address = ''0xR3'' then Amounts [10 ^ 18]
      else Amounts [10 ^ 18, 0])"

text \<open>A scanner configuration with the given enabled routers: minimum price difference
  \<open>0.005\<close>, trade size \<open>1000\<close>, fee \<open>0.003\<close>.\<close>

definition example_scan_config :: "string list \<Rightarrow> scan_config" where
  "example_scan_config routers =
     \<lparr>min_price_diff = fl64 (5 / 1000), default_trade_size = 1000,
      dex_fee_percent = fl64 (3 / 1000), enabled_routers = routers\<rparr>"
section \<open>Undefined names: what the calls come to\<close>



lemma poll_receipt_cases:
  "poll_receipt p = (case p of NoReceipt \<Rightarrow> Returned None | _ \<Rightarrow> Raised (NameError ''logger''))"
  by (simp add: poll_receipt_def try_except_def py_bind_def executor_logger_def split: poll.splits)

lemma wait_for_execution_raises:
  "wait_for_execution polls overrun timeout elapsed k
     = Raised (NameError (if elapsed < timeout \<and> polls k = NoReceipt then ''asyncio'' else ''logger''))"
  by (subst wait_for_execution.simps)
     (simp add: poll_receipt_cases executor_asyncio_sleep_def executor_logger_def py_bind_def
       split: poll.splits)








lemma run_append: "run cfg (xs @ ys) s = run cfg ys (run cfg xs s)"
  by (simp add: run_def)





section \<open>Facts about the binary64 model\<close>

lemma bitlen_powi_bounds:
  assumes "0 < p"
  shows "power_int 2 (bitlen p - 1) \<le> (of_int p :: rat)" and "(of_int p :: rat) < power_int 2 (bitlen p)"
proof -
  from bitlen_bounds [OF assms]
  have lo: "2 ^ nat (bitlen p - 1) \<le> p" and hi: "p < 2 ^ nat (bitlen p)" by simp_all
  have pos: "0 < bitlen p"
  proof (rule ccontr)
    assume "\<not> 0 < bitlen p"
    then have "nat (bitlen p) = 0" by simp
    with hi assms show False by simp
  qed
  have e1: "(power_int 2 (bitlen p - 1) :: rat) = of_int (2 ^ nat (bitlen p - 1))"
    using pos by (simp add: power_int_def)
  have e2: "(power_int 2 (bitlen p) :: rat) = of_int (2 ^ nat (bitlen p))"
    using pos by (simp add: power_int_def)
  show "power_int 2 (bitlen p - 1) \<le> (of_int p :: rat)"
    unfolding e1 using lo by (simp only: of_int_le_iff)
  show "(of_int p :: rat) < power_int 2 (bitlen p)"
    unfolding e2 using hi by (simp only: of_int_less_iff)
qed

lemma ilog2_bounds:
  assumes "0 < x"
  shows "power_int 2 (ilog2 x) \<le> x" and "x < power_int 2 (ilog2 x + 1)"
proof -
  obtain p q where pq: "quotient_of x = (p, q)" by (cases "quotient_of x")
  then have q: "0 < q" and x: "x = of_int p / of_int q"
    by (simp_all add: quotient_of_denom_pos quotient_of_div)
  have p: "0 < p" using assms q x by (simp add: zero_less_divide_iff)
  define a where "a = bitlen p"
  define b where "b = bitlen q"
  note pb = bitlen_powi_bounds [OF p, folded a_def]
  note qb = bitlen_powi_bounds [OF q, folded b_def]
  have qpos: "(0::rat) < of_int q" using q by simp
  have pw: "(0::rat) < power_int 2 k" for k by (rule zero_less_power_int) simp
  have up: "x < power_int 2 (a - b + 1)"
  proof -
    have "of_int p * power_int 2 (b - 1) < power_int 2 a * (power_int 2 (b - 1) :: rat)"
      using pb(2) pw [of "b - 1"] by (rule mult_strict_right_mono)
    also have "\<dots> \<le> power_int 2 a * (of_int q :: rat)"
      using qb(1) less_imp_le [OF pw [of a]] by (rule mult_left_mono)
    finally have "of_int p * power_int 2 (b - 1) < power_int 2 a * (of_int q :: rat)" .
    then have "x < power_int 2 a / power_int 2 (b - 1)"
      unfolding x using qpos pw [of "b - 1"] by (simp add: field_simps)
    also have "power_int 2 a / power_int 2 (b - 1) = (power_int 2 (a - (b - 1)) :: rat)"
      by (simp add: power_int_diff)
    finally show ?thesis by (simp add: algebra_simps)
  qed
  have lo: "power_int 2 (a - b - 1) < x"
  proof -
    have "power_int 2 (a - 1) * (of_int q :: rat) < power_int 2 (a - 1) * power_int 2 b"
      using qb(2) pw [of "a - 1"] by (rule mult_strict_left_mono)
    also have "\<dots> \<le> of_int p * power_int 2 b"
      using pb(1) less_imp_le [OF pw [of b]] by (rule mult_right_mono)
    finally have "power_int 2 (a - 1) * (of_int q :: rat) < of_int p * power_int 2 b" .
    then have "power_int 2 (a - 1) / power_int 2 b < x"
      unfolding x using qpos pw [of b] by (simp add: field_simps)
    moreover have "power_int 2 (a - 1) / power_int 2 b = (power_int 2 (a - 1 - b) :: rat)"
      by (simp add: power_int_diff)
    ultimately show ?thesis by (simp add: algebra_simps)
  qed
  have il: "ilog2 x = (if power_int 2 (a - b) \<le> x then a - b else a - b - 1)"
    by (simp add: ilog2_def pq a_def b_def Let_def)
  show "power_int 2 (ilog2 x) \<le> x"
    using lo by (simp add: il)
  show "x < power_int 2 (ilog2 x + 1)"
    using up by (auto simp: il not_le)
qed

lemma rhe_ge:
  assumes "of_int z - 1 / 2 < y"
  shows "z \<le> round_half_even y"
proof -
  have "z \<le> \<lfloor>y\<rfloor> \<or> (z = \<lfloor>y\<rfloor> + 1 \<and> 1 / 2 < y - of_int \<lfloor>y\<rfloor>)"
  proof (cases "z \<le> \<lfloor>y\<rfloor>")
    case True then show ?thesis by simp
  next
    case False
    then have 1: "\<lfloor>y\<rfloor> + 1 \<le> z" by simp
    have "y < of_int \<lfloor>y\<rfloor> + 1" by linarith
    with assms have "of_int z < of_int \<lfloor>y\<rfloor> + (3 / 2 :: rat)" by linarith
    then have "of_int z < (of_int (\<lfloor>y\<rfloor> + 2) :: rat)" by simp
    then have "z < \<lfloor>y\<rfloor> + 2" by (simp only: of_int_less_iff)
    with 1 have z: "z = \<lfloor>y\<rfloor> + 1" by simp
    with assms have "1 / 2 < y - of_int \<lfloor>y\<rfloor>" by simp
    with z show ?thesis by simp
  qed
  then show ?thesis
    by (auto simp: round_half_even_def Let_def)
qed

lemma rhe_le:
  assumes "y < of_int z + 1 / 2"
  shows "round_half_even y \<le> z"
proof -
  have "\<lfloor>y\<rfloor> + 1 \<le> z \<or> (z = \<lfloor>y\<rfloor> \<and> y - of_int \<lfloor>y\<rfloor> < 1 / 2)"
  proof (cases "\<lfloor>y\<rfloor> + 1 \<le> z")
    case True then show ?thesis by simp
  next
    case False
    then have 1: "z \<le> \<lfloor>y\<rfloor>" by simp
    have "of_int \<lfloor>y\<rfloor> \<le> y" by simp
    with assms have "(of_int \<lfloor>y\<rfloor> :: rat) < of_int z + 1 / 2" by linarith
    then have "(of_int \<lfloor>y\<rfloor> :: rat) < of_int (z + 1)" by simp
    then have "\<lfloor>y\<rfloor> < z + 1" by (simp only: of_int_less_iff)
    with 1 have z: "z = \<lfloor>y\<rfloor>" by simp
    with assms have "y - of_int \<lfloor>y\<rfloor> < 1 / 2" by simp
    with z show ?thesis by simp
  qed
  then show ?thesis
    by (auto simp: round_half_even_def Let_def)
qed

lemma rhe_of_int: "round_half_even (of_int z) = z"
  by (simp add: round_half_even_def)

lemma ilog2_less:
  assumes "0 < x" and "x < power_int 2 n"
  shows "ilog2 x < n"
proof (rule ccontr)
  assume "\<not> ilog2 x < n"
  then have "n \<le> ilog2 x" by simp
  then have "(power_int 2 n :: rat) \<le> power_int 2 (ilog2 x)"
    by (rule power_int_increasing) simp
  with ilog2_bounds(1) [OF assms(1)] assms(2) show False by linarith
qed

lemma two_powi_nat: "0 \<le> n \<Longrightarrow> (power_int 2 n :: rat) = of_int (2 ^ nat n)"
  by (simp add: power_int_def)

lemma fl64_of_int:
  assumes "0 \<le> g" and "g < 2 ^ 53"
  shows "fl64 (of_int g) = of_int g"
proof (cases "g = 0")
  case True then show ?thesis by (simp add: fl64_def)
next
  case False
  with assms have pos: "(0::rat) < of_int g" by simp
  define k where "k = ilog2 (of_int g)"
  have "(of_int g :: rat) < of_int (2 ^ 53)" using assms(2) by (simp only: of_int_less_iff)
  also have "(of_int (2 ^ 53) :: rat) = power_int 2 53" by (simp add: power_int_def)
  finally have "k < 53" unfolding k_def using pos by (intro ilog2_less)
  then have n: "0 \<le> 52 - k" by simp
  define P where "P = (2::int) ^ nat (52 - k)"
  have Ppos: "0 < P" by (simp add: P_def)
  have inv: "(power_int 2 (k - 52) :: rat) = 1 / of_int P"
  proof -
    have "(power_int 2 (k - 52) :: rat) = power_int 2 (- (52 - k))" by simp
    also have "\<dots> = 1 / power_int 2 (52 - k)" by (rule power_int_minus_divide)
    finally show ?thesis by (simp only: two_powi_nat [OF n] P_def)
  qed
  have "of_int g / (power_int 2 (k - 52) :: rat) = of_int (g * P)"
    unfolding inv using Ppos by simp
  then have "round_half_even (of_int g / power_int 2 (k - 52)) = g * P"
    by (simp only: rhe_of_int)
  then have "fl64 (of_int g) = of_int (g * P) * (1 / of_int P)"
    using pos False by (simp add: fl64_def Let_def k_def [symmetric] inv)
  also have "\<dots> = of_int g" using Ppos by simp
  finally show ?thesis .
qed

lemma fl64_scaled:
  assumes "x \<noteq> 0"
  shows "power_int 2 52 \<le> \<bar>x\<bar> / power_int 2 (ilog2 \<bar>x\<bar> - 52)"
proof -
  define k where "k = ilog2 \<bar>x\<bar>"
  define B :: rat where "B = power_int 2 k"
  define C :: rat where "C = power_int 2 52"
  have pos: "0 < \<bar>x\<bar>" using assms by simp
  have B: "0 < B" and C: "0 < C" unfolding B_def C_def by (rule zero_less_power_int, simp)+
  have "(power_int 2 (k - 52) :: rat) = B / C"
    unfolding B_def C_def by (rule power_int_diff) simp
  then have eq: "\<bar>x\<bar> / power_int 2 (k - 52) = \<bar>x\<bar> / B * C"
    by simp
  have "B \<le> \<bar>x\<bar>" unfolding B_def k_def by (rule ilog2_bounds(1) [OF pos])
  then have "1 \<le> \<bar>x\<bar> / B" using B by simp
  then have "1 * C \<le> \<bar>x\<bar> / B * C"
    using less_imp_le [OF C] by (rule mult_right_mono)
  then show ?thesis unfolding k_def [symmetric] eq by (simp add: C_def)
qed

lemma fl64_pos:
  assumes "0 < x"
  shows "0 < fl64 x"
proof -
  define e where "e = ilog2 \<bar>x\<bar> - 52"
  define y where "y = x / power_int 2 e"
  have pw: "(0::rat) < power_int 2 e" by (rule zero_less_power_int) simp
  have nz: "x \<noteq> 0" and ax: "\<bar>x\<bar> = x" using assms by simp_all
  have "(power_int 2 52 :: rat) \<le> \<bar>x\<bar> / power_int 2 e"
    unfolding e_def by (rule fl64_scaled [OF nz])
  then have "(power_int 2 52 :: rat) \<le> y" by (simp only: ax y_def)
  moreover have "(1 :: rat) \<le> power_int 2 52" by (simp add: power_int_def)
  ultimately have "of_int 1 - 1 / 2 < y" by simp
  then have "1 \<le> round_half_even y" by (rule rhe_ge)
  then have "(0::rat) < of_int (round_half_even y)" by simp
  then have "(0::rat) < of_int (round_half_even y) * power_int 2 e"
    using pw by (rule mult_pos_pos)
  moreover have "fl64 x = of_int (round_half_even y) * power_int 2 e"
    using nz by (simp add: fl64_def Let_def e_def y_def)
  ultimately show ?thesis by simp
qed

lemma fl64_neg:
  assumes "x < 0"
  shows "fl64 x < 0"
proof -
  define e where "e = ilog2 \<bar>x\<bar> - 52"
  define y where "y = x / power_int 2 e"
  have pw: "(0::rat) < power_int 2 e" by (rule zero_less_power_int) simp
  have nz: "x \<noteq> 0" and ax: "\<bar>x\<bar> = - x" using assms by simp_all
  have "(power_int 2 52 :: rat) \<le> \<bar>x\<bar> / power_int 2 e"
    unfolding e_def by (rule fl64_scaled [OF nz])
  then have "(power_int 2 52 :: rat) \<le> - y" by (simp only: ax y_def minus_divide_left)
  moreover have "(1 :: rat) \<le> power_int 2 52" by (simp add: power_int_def)
  ultimately have "y < of_int (- 1) + 1 / 2" by simp
  then have "round_half_even y \<le> - 1" by (rule rhe_le)
  then have "of_int (round_half_even y) < (0::rat)" by simp
  then have "of_int (round_half_even y) * power_int 2 e < (0::rat)"
    using pw by (simp add: mult_less_0_iff)
  moreover have "fl64 x = of_int (round_half_even y) * power_int 2 e"
    using nz by (simp add: fl64_def Let_def e_def y_def)
  ultimately show ?thesis by simp
qed

lemma fl64_pos_iff: "0 < fl64 x \<longleftrightarrow> 0 < x"
proof (cases "x = 0")
  case True
  then show ?thesis by (simp add: fl64_def)
next
  case False
  then consider "0 < x" | "x < 0" by linarith
  then show ?thesis
  proof cases
    case 1 then show ?thesis by (simp add: fl64_pos)
  next
    case 2
    from fl64_neg [OF 2] 2 show ?thesis by simp
  qed
qed

section \<open>Single-flight execution\<close>


section \<open>Trade ids\<close>


section \<open>Confirmation timeout\<close>


section \<open>Selecting the next trade\<close>

lemma py_max_key_in: "py_max_key key best xs \<in> set (best # xs)"
  by (induction xs arbitrary: best) (auto split: if_splits)

lemma select_best_in: "select_best key xs = Some b \<Longrightarrow> b \<in> set xs"
  using py_max_key_in [of key] by (auto simp: select_best_def split: list.splits)











section \<open>Finalizing a trade and the trade history\<close>


section \<open>What the scan returns\<close>

lemma compare_routers_appends_nothing:
  "compare_routers cfg pair q1 q2 = Returned found \<Longrightarrow> found = []"
  by (simp add: compare_routers_def Let_def split: if_splits)

lemma scan_inner_appends_nothing:
  "scan_inner cfg pair q1 rest opportunities = Returned found \<Longrightarrow> found = opportunities"
proof (induction rest arbitrary: opportunities)
  case Nil
  then show ?case by simp
next
  case (Cons q2 rest)
  show ?case
  proof (cases "compare_routers cfg pair q1 q2")
    case (Returned new)
    then have "new = []" by (rule compare_routers_appends_nothing)
    with Cons Returned show ?thesis by simp
  next
    case (Raised e)
    with Cons.prems show ?thesis by simp
  qed
qed

lemma scan_outer_appends_nothing:
  "scan_outer cfg pair prices opportunities = Returned found \<Longrightarrow> found = opportunities"
proof (induction prices arbitrary: opportunities)
  case Nil
  then show ?case by simp
next
  case (Cons q1 rest)
  show ?case
  proof (cases "scan_inner cfg pair q1 rest opportunities")
    case (Returned inner)
    then have "inner = opportunities" by (rule scan_inner_appends_nothing)
    with Cons Returned show ?thesis by simp
  next
    case (Raised e)
    with Cons.prems show ?thesis by simp
  qed
qed

lemma scan_pair_returns_nothing:
  "scan_pair cfg get_amounts_out pair = Returned found \<Longrightarrow> found = []"
  using scan_outer_appends_nothing [of cfg pair _ "[]" found]
  by (simp add: scan_pair_def Let_def split: if_splits)

lemma scan_pairs_empty: "scan_pairs cfg get_amounts_out pairs = []"
proof (induction pairs)
  case Nil
  show ?case by simp
next
  case (Cons pair pairs)
  show ?case
  proof (cases "scan_pair cfg get_amounts_out pair")
    case (Returned found)
    then have "found = []" by (rule scan_pair_returns_nothing)
    with Cons Returned show ?thesis by simp
  next
    case (Raised e)
    with Cons show ?thesis by simp
  qed
qed

text \<open>
  C5: no opportunity with a computed expected profit of zero or less is among those
  that \<^verbatim>\<open>scan_opportunities\<close> returns, whatever the prices, the fee and the trade size.
  An iteration of \<^verbatim>\<open>_scan_pair\<close> on an unprofitable pair of routers appends nothing; on a
  profitable one it raises before anything is appended, so the scan returns no
  opportunity at all.
\<close>

theorem scan_returns_no_unprofitable_opportunity:
  "filter (\<lambda>opp. expected_profit opp \<le> 0) (scan_opportunities cfg get_amounts_out pairs) = []
   \<and> scan_opportunities cfg get_amounts_out pairs = []"
  by (simp add: scan_opportunities_def scan_pairs_empty)

section \<open>Expected profit\<close>

lemma fl64_ten_18: "fl64 1000000000000000000 = 1000000000000000000"
  by code_simp

lemma spec_profit_exact:
  "spec_profit (\<lambda>x. x) feePercent tradeSize buyPrice sellPrice
     = spec_expected_profit feePercent tradeSize buyPrice sellPrice"
  by (simp add: spec_profit_def spec_expected_profit_def Let_def)

text \<open>
  C4, as amended: for a buy price other than zero, \<^verbatim>\<open>_calculate_expected_profit\<close> returns
  the formula of the specification, \<open>sellAmount = tradeSize * sellPrice / buyPrice\<close>,
  \<open>sellAmount *= (1 - feePercent)\<close>, \<open>profit = sellAmount - tradeSize\<close>, times \<open>10\<^sup>1\<^sup>8\<close>, with
  the trade size and the result of every operation rounded to binary64, and truncated to
  an integer; for a buy price of zero it returns \<open>0\<close>.
\<close>

theorem calculate_expected_profit_binary64:
  assumes "buyPrice \<noteq> 0"
  shows "calculate_expected_profit feePercent tradeSize buyPrice sellPrice
           = py_int (spec_profit fl64 feePercent (fl64 (of_int tradeSize)) buyPrice sellPrice)
         \<and> calculate_expected_profit feePercent tradeSize 0 sellPrice = 0"
  using assms
  by (simp add: calculate_expected_profit_def spec_profit_def Let_def fmul_def fdiv_def fsub_def
      float_of_int_def fl64_ten_18)

text \<open>The theorem applies to the example of the specification, \<open>buyPrice = 100\<close>,
  \<open>sellPrice = 110\<close>, \<open>tradeSize = 1000\<close>, \<open>feePercent = 0.003\<close>: the code returns
  \<open>96700000000000049152\<close>, where the formula in exact arithmetic gives \<open>96.7 \<sqdot> 10\<^sup>1\<^sup>8\<close>.\<close>

theorem calculate_expected_profit_binary64_witness:
  "(100 :: rat) \<noteq> 0
   \<and> calculate_expected_profit (fl64 (3 / 1000)) 1000 100 110
       = py_int (spec_profit fl64 (fl64 (3 / 1000)) (fl64 (of_int 1000)) 100 110)
   \<and> calculate_expected_profit (fl64 (3 / 1000)) 1000 100 110 = 96700000000000049152
   \<and> spec_profit (\<lambda>x. x) (3 / 1000) 1000 100 110 = 967 * 10 ^ 17"
proof -
  have nz: "(100 :: rat) \<noteq> 0" by simp
  have a: "calculate_expected_profit (fl64 (3 / 1000)) 1000 100 110
       = py_int (spec_profit fl64 (fl64 (3 / 1000)) (fl64 (of_int 1000)) 100 110)"
    using calculate_expected_profit_binary64 [OF nz] by (rule conjunct1)
  have b: "calculate_expected_profit (fl64 (3 / 1000)) 1000 100 110 = 96700000000000049152"
    by code_simp
  have c: "spec_profit (\<lambda>x. x) (3 / 1000) 1000 100 110 = 967 * 10 ^ 17"
    by code_simp
  from nz a b c show ?thesis by blast
qed

text \<open>C4 as stated fails: on the example of the specification the code does not return
  exactly \<open>96.7\<close> in minor units, that is \<open>96.7 \<sqdot> 10\<^sup>1\<^sup>8\<close>.\<close>

theorem calculate_expected_profit_not_exact:
  "calculate_expected_profit (fl64 (3 / 1000)) 1000 100 110 \<noteq> 967 * 10 ^ 17"
  by code_simp

section \<open>The replay hash\<close>















section \<open>Quotes of a pair\<close>

lemma get_prices_for_pair_eq:
  "get_prices_for_pair get_amounts_out pair routers
     = map (\<lambda>r. (r, get_price_from_router get_amounts_out pair r))
         (filter (\<lambda>r. 0 < get_price_from_router get_amounts_out pair r) routers)"
  by (induction routers) (simp_all add: Let_def)

text \<open>
  C3, as amended: the quotes of a pair are those of the enabled routers whose price is
  positive, in the order of the configuration. A router whose \<^verbatim>\<open>getAmountsOut\<close> call raises
  has the fixed fallback price \<open>1.0\<close> and so contributes the quote \<open>1.0\<close>; a router whose
  call returns amounts has the price \<^verbatim>\<open>amounts[1] / 10**18\<close> when there are at least two
  amounts and \<open>0\<close> otherwise, and contributes a quote exactly when there are at least two
  amounts and the second is positive. A pair with fewer than two quotes is skipped:
  \<^verbatim>\<open>_scan_pair\<close> returns the empty list.
\<close>

theorem failed_fetch_falls_back_to_fixed_price:
  "get_prices_for_pair get_amounts_out pair routers
     = map (\<lambda>r. (r, get_price_from_router get_amounts_out pair r))
         (filter (\<lambda>r. 0 < get_price_from_router get_amounts_out pair r) routers)
   \<and> (get_amounts_out [base pair, quote pair] router = CallRaised
        \<longrightarrow> get_price_from_router get_amounts_out pair router = 1)
   \<and> (get_amounts_out [base pair, quote pair] router = Amounts amounts
        \<longrightarrow> get_price_from_router get_amounts_out pair router
              = (if 2 \<le> length amounts then fl64 (of_int (amounts ! 1) / of_int (10 ^ 18)) else 0)
            \<and> (0 < get_price_from_router get_amounts_out pair router
                  \<longleftrightarrow> 2 \<le> length amounts \<and> 0 < amounts ! 1))
   \<and> (length (get_prices_for_pair get_amounts_out pair (enabled_routers cfg)) < 2
        \<longrightarrow> scan_pair cfg get_amounts_out pair = Returned [])"
proof -
  have raised: "get_price_from_router get_amounts_out pair router = 1"
    if "get_amounts_out [base pair, quote pair] router = CallRaised"
    using that by (simp add: get_price_from_router_def get_price_from_api_def)
  have price: "get_price_from_router get_amounts_out pair router
              = (if 2 \<le> length amounts then fl64 (of_int (amounts ! 1) / of_int (10 ^ 18)) else 0)"
    if "get_amounts_out [base pair, quote pair] router = Amounts amounts"
    using that by (simp add: get_price_from_router_def)
  have pos: "(0 < (of_int (amounts ! 1) / of_int (10 ^ 18) :: rat)) = (0 < amounts ! 1)"
    by (simp add: zero_less_divide_iff)
  have sign: "0 < get_price_from_router get_amounts_out pair router
                  \<longleftrightarrow> 2 \<le> length amounts \<and> 0 < amounts ! 1"
    if "get_amounts_out [base pair, quote pair] router = Amounts amounts"
  proof (cases "2 \<le> length amounts")
    case True
    with price [OF that]
    have "get_price_from_router get_amounts_out pair router
            = fl64 (of_int (amounts ! 1) / of_int (10 ^ 18))"
      by (simp only: if_True)
    then show ?thesis using True by (simp only: fl64_pos_iff pos simp_thms)
  next
    case False
    with price [OF that] have "get_price_from_router get_amounts_out pair router = 0"
      by (simp only: if_False)
    then show ?thesis using False by simp
  qed
  have skipped: "scan_pair cfg get_amounts_out pair = Returned []"
    if "length (get_prices_for_pair get_amounts_out pair (enabled_routers cfg)) < 2"
    using that by (simp add: scan_pair_def Let_def)
  from get_prices_for_pair_eq raised price sign skipped show ?thesis by blast
qed

text \<open>The theorem applies to four routers: one whose call raises, one that quotes \<open>1.05\<close>,
  one that returns a single amount and one that returns the amount zero; and to a
  configuration that enables the last three, whose pair is skipped.\<close>

theorem failed_fetch_falls_back_to_fixed_price_witness:
  "get_prices_for_pair example_get_amounts_out example_pair [''0xR1'', ''0xR2'', ''0xR3'', ''0xR4'']
     = [(''0xR1'', 1), (''0xR2'', fl64 (105 / 100))]
   \<and> get_price_from_router example_get_amounts_out example_pair ''0xR1'' = 1
   \<and> get_price_from_router example_get_amounts_out example_pair ''0xR3'' = 0
   \<and> \<not> 0 < get_price_from_router example_get_amounts_out example_pair ''0xR4''
   \<and> scan_pair (example_scan_config [''0xR2'', ''0xR3'', ''0xR4'']) example_get_amounts_out example_pair
       = Returned []"
proof -
  let ?f = example_get_amounts_out
  let ?p = example_pair
  let ?routers = "[''0xR1'', ''0xR2'', ''0xR3'', ''0xR4'']"
  let ?cfg = "example_scan_config [''0xR2'', ''0xR3'', ''0xR4'']"
  have r1: "?f [base ?p, quote ?p] ''0xR1'' = CallRaised" by code_simp
  have r3: "?f [base ?p, quote ?p] ''0xR3'' = Amounts [10 ^ 18]" by code_simp
  have r4: "?f [base ?p, quote ?p] ''0xR4'' = Amounts [10 ^ 18, 0]" by code_simp
  have few: "length (get_prices_for_pair ?f ?p (enabled_routers ?cfg)) < 2" by code_simp
  have quotes: "map (\<lambda>r. (r, get_price_from_router ?f ?p r))
                  (filter (\<lambda>r. 0 < get_price_from_router ?f ?p r) ?routers)
                = [(''0xR1'', 1), (''0xR2'', fl64 (105 / 100))]"
    by code_simp
  note i1 = failed_fetch_falls_back_to_fixed_price
              [of ?f ?p ?routers "''0xR1''" "[]" ?cfg]
  note i3 = failed_fetch_falls_back_to_fixed_price
              [of ?f ?p ?routers "''0xR3''" "[10 ^ 18]" ?cfg]
  note i4 = failed_fetch_falls_back_to_fixed_price
              [of ?f ?p ?routers "''0xR4''" "[10 ^ 18, 0]" ?cfg]
  from i1 quotes have 1: "get_prices_for_pair ?f ?p ?routers
     = [(''0xR1'', 1), (''0xR2'', fl64 (105 / 100))]"
    by (simp only:)
  from i1 r1 have 2: "get_price_from_router ?f ?p ''0xR1'' = 1" by blast
  from i3 r3 have "get_price_from_router ?f ?p ''0xR3''
      = (if 2 \<le> length [10 ^ 18 :: int] then fl64 (of_int ([10 ^ 18] ! 1) / of_int (10 ^ 18)) else 0)"
    by blast
  then have 3: "get_price_from_router ?f ?p ''0xR3'' = 0" by simp
  from i4 r4 have "0 < get_price_from_router ?f ?p ''0xR4''
      \<longleftrightarrow> 2 \<le> length [10 ^ 18, 0 :: int] \<and> 0 < [10 ^ 18, 0 :: int] ! 1"
    by blast
  then have 4: "\<not> 0 < get_price_from_router ?f ?p ''0xR4''" by simp
  from i1 few have 5: "scan_pair ?cfg ?f ?p = Returned []" by blast
  from 1 2 3 4 5 show ?thesis by (intro conjI)
qed

text \<open>C3 as stated fails: the router \<^verbatim>\<open>0xR1\<close>, whose fetch fails, contributes the quote
  \<open>1.0\<close>, and with the single successful quote \<open>1.05\<close> of \<^verbatim>\<open>0xR2\<close> the pair is not skipped
  but compared and found profitable (the scan of the pair then ends at
  \<^verbatim>\<open>datetime.now()\<close>); with \<^verbatim>\<open>0xR3\<close>, which returns no price, in the place of \<^verbatim>\<open>0xR1\<close> the
  pair is skipped.\<close>

theorem failed_fetch_is_compared:
  "example_get_amounts_out [base example_pair, quote example_pair] ''0xR1'' = CallRaised
   \<and> get_prices_for_pair example_get_amounts_out example_pair [''0xR1'', ''0xR2'']
       = [(''0xR1'', 1), (''0xR2'', fl64 (105 / 100))]
   \<and> scan_pair (example_scan_config [''0xR1'', ''0xR2'']) example_get_amounts_out example_pair
       = Raised (NameError ''datetime'')
   \<and> scan_pair (example_scan_config [''0xR3'', ''0xR2'']) example_get_amounts_out example_pair
       = Returned []"
  by code_simp

section \<open>The gas ceiling\<close>

lemma fl64_12_10: "fl64 (12 / 10) = 5404319552844595 / 4503599627370496"
  by code_simp

lemma floor_fl64_gas:
  assumes "0 < g" and "g < 2 ^ 50"
  shows "\<lfloor>fl64 (of_int g * (5404319552844595 / 4503599627370496))\<rfloor> = (6 * g) div 5"
proof -
  define x :: rat where "x = of_int g * (5404319552844595 / 4503599627370496)"
  define q where "q = (6 * g) div 5"
  define k where "k = ilog2 x"
  have gpos: "(0::rat) < of_int g" using assms(1) by simp
  have xeq: "x = 6 * of_int g / 5 - of_int g / 22517998136852480"
    by (simp add: x_def field_simps)
  have xpos: "0 < x" using gpos by (simp add: x_def)
  have gx: "of_int g < x" using gpos by (simp add: x_def)
  have "g \<le> 1125899906842623" using assms(2) by simp
  then have gle: "(of_int g :: rat) \<le> 1125899906842623"
    by (metis of_int_le_iff of_int_numeral)
  have "x < 2251799813685248" using gle gpos unfolding xeq by linarith
  also have "(2251799813685248 :: rat) = power_int 2 51" by (simp add: power_int_def)
  finally have "k < 51" unfolding k_def using xpos by (intro ilog2_less)
  then have n: "0 \<le> 52 - k" and n2: "2 \<le> 52 - k" by simp_all
  define P where "P = (2::int) ^ nat (52 - k)"
  have "(2::int) ^ 2 \<le> 2 ^ nat (52 - k)" using n2 by (intro power_increasing) simp_all
  then have P4: "4 \<le> P" by (simp add: P_def)
  then have Ppos: "(0::rat) < of_int P" and P4r: "(4::rat) \<le> of_int P"
    by (simp, metis of_int_le_iff of_int_numeral)
  have PP: "(power_int 2 (52 - k) :: rat) = of_int P"
    by (simp only: two_powi_nat [OF n] P_def)
  have inv: "(power_int 2 (k - 52) :: rat) = 1 / of_int P"
  proof -
    have "(power_int 2 (k - 52) :: rat) = power_int 2 (- (52 - k))" by simp
    also have "\<dots> = 1 / power_int 2 (52 - k)" by (rule power_int_minus_divide)
    finally show ?thesis by (simp only: PP)
  qed
  define m where "m = round_half_even (x * of_int P)"
  have fl: "fl64 x = of_int m / of_int P"
    using xpos by (simp add: fl64_def Let_def k_def [symmetric] inv m_def)
  have "5 * q \<le> 6 * g" and "6 * g \<le> 5 * q + 4" unfolding q_def by simp_all
  then have "(of_int (5 * q) :: rat) \<le> of_int (6 * g)" and "(of_int (6 * g) :: rat) \<le> of_int (5 * q + 4)"
    by (simp_all only: of_int_le_iff)
  then have q1: "5 * (of_int q :: rat) \<le> 6 * of_int g" and q2: "6 * (of_int g :: rat) \<le> 5 * of_int q + 4"
    by simp_all
  have xhi: "x < of_int q + 4 / 5" using q2 gpos unfolding xeq by linarith
  have xlo: "of_int q - of_int g / 22517998136852480 \<le> x" using q1 unfolding xeq by linarith
  \<comment> \<open>upper bound\<close>
  have "x * of_int P < (of_int q + 4 / 5) * of_int P"
    using xhi Ppos by (rule mult_strict_right_mono)
  also have "\<dots> \<le> of_int ((q + 1) * P - 1) + 1 / 2"
    using P4r by (simp add: algebra_simps)
  finally have "m \<le> (q + 1) * P - 1" unfolding m_def by (rule rhe_le)
  then have "(of_int m :: rat) \<le> of_int ((q + 1) * P - 1)" by (simp only: of_int_le_iff)
  then have "(of_int m :: rat) < (of_int q + 1) * of_int P" by simp
  then have up: "fl64 x < of_int q + 1"
    unfolding fl using Ppos by (simp add: field_simps)
  \<comment> \<open>lower bound\<close>
  have "x < power_int 2 (k + 1)" unfolding k_def by (rule ilog2_bounds(2) [OF xpos])
  also have "(power_int 2 (k + 1) :: rat) = 2 * power_int 2 k"
    by (simp add: power_int_add)
  finally have x2k: "x < 2 * power_int 2 k" .
  have "(power_int 2 k :: rat) = power_int 2 (52 - (52 - k))" by simp
  also have "\<dots> = power_int 2 52 / power_int 2 (52 - k)" by (rule power_int_diff) simp
  also have "\<dots> = 4503599627370496 / of_int P" unfolding PP by (simp add: power_int_def)
  finally have pk: "(power_int 2 k :: rat) = 4503599627370496 / of_int P" .
  have "of_int g * of_int P < x * of_int P"
    using gx Ppos by (rule mult_strict_right_mono)
  moreover have "x * of_int P < (2 * 4503599627370496 :: rat)"
    using x2k Ppos unfolding pk by (simp add: field_simps)
  ultimately have "of_int g * of_int P < (2 * 4503599627370496 :: rat)" by (rule less_trans)
  then have gP: "of_int g * of_int P / 22517998136852480 < (1 / 2 :: rat)" by linarith
  have "(of_int q - of_int g / 22517998136852480) * of_int P \<le> x * of_int P"
    using xlo less_imp_le [OF Ppos] by (rule mult_right_mono)
  then have "of_int (q * P) - 1 / 2 < x * of_int P"
    using gP by (simp add: algebra_simps)
  then have "q * P \<le> m" unfolding m_def by (rule rhe_ge)
  then have "(of_int (q * P) :: rat) \<le> of_int m" by (simp only: of_int_le_iff)
  then have lo: "of_int q \<le> fl64 x"
    unfolding fl using Ppos by (simp add: field_simps)
  from lo up have "\<lfloor>fl64 x\<rfloor> = q" by (simp add: floor_unique)
  then show ?thesis by (simp only: x_def q_def)
qed

text \<open>
  C9, as amended: for every gas-price reading \<open>g\<close> with \<open>0 \<le> g < 2\<^sup>5\<^sup>0\<close> (in wei), the ceiling
  that \<^verbatim>\<open>_calculate_max_gas_price\<close> returns is the smaller of \<open>\<lfloor>6 g / 5\<rfloor>\<close>, the integer part
  of the exact product \<open>g \<sqdot> 1.2\<close>, and the absolute maximum, which is 500 Gwei when the
  configuration has none; and for every reading the ceiling is at most the absolute
  maximum.
\<close>

theorem gas_ceiling_integer_part:
  assumes "0 \<le> g" and "g < 2 ^ 50"
  shows "calculate_max_gas_price abs_max g
           = min ((6 * g) div 5) (case abs_max of None \<Rightarrow> 500 * 10 ^ 9 | Some a \<Rightarrow> a)
     \<and> calculate_max_gas_price abs_max g'
           \<le> (case abs_max of None \<Rightarrow> 500 * 10 ^ 9 | Some a \<Rightarrow> a)"
proof -
  have g53: "g < 2 ^ 53" using assms(2) by simp
  have "py_int (fmul (float_of_int g) (fl64 (12 / 10))) = (6 * g) div 5"
  proof (cases "g = 0")
    case True
    then show ?thesis by (simp add: fmul_def float_of_int_def fl64_def py_int_def)
  next
    case False
    with assms have pos: "0 < g" by simp
    note fl = floor_fl64_gas [OF pos assms(2)]
    have "0 \<le> (6 * g) div 5" using assms(1) by simp
    then have "0 \<le> \<lfloor>fl64 (of_int g * (5404319552844595 / 4503599627370496))\<rfloor>"
      by (simp only: fl)
    then have "0 \<le> fl64 (of_int g * (5404319552844595 / 4503599627370496))" by simp
    then show ?thesis
      by (simp only: fmul_def float_of_int_def fl64_of_int [OF assms(1) g53] fl64_12_10
            py_int_def fl if_True)
  qed
  then have "calculate_max_gas_price abs_max g
           = min ((6 * g) div 5) (case abs_max of None \<Rightarrow> 500 * 10 ^ 9 | Some a \<Rightarrow> a)"
    by (simp only: calculate_max_gas_price_def Let_def)
  moreover have "calculate_max_gas_price abs_max g'
           \<le> (case abs_max of None \<Rightarrow> 500 * 10 ^ 9 | Some a \<Rightarrow> a)"
    by (simp only: calculate_max_gas_price_def Let_def min.cobounded2)
  ultimately show ?thesis by (rule conjI)
qed

text \<open>The theorem applies to a reading of 30 Gwei, whose ceiling is 36 Gwei, and to a
  reading of 1000 Gwei, whose ceiling is the default maximum of 500 Gwei.\<close>

theorem gas_ceiling_integer_part_witness:
  "calculate_max_gas_price None 30000000000 = 36000000000
   \<and> calculate_max_gas_price None 1000000000000 = 500000000000
   \<and> calculate_max_gas_price (Some 40000000000) 1000000000007 = 40000000000
   \<and> calculate_max_gas_price (Some 2000000000000) 1000000000007 = 1200000000008"
proof -
  have 1: "calculate_max_gas_price None 30000000000 = 36000000000"
    using gas_ceiling_integer_part [of 30000000000 None 0] by simp
  have 2: "calculate_max_gas_price None 1000000000000 = 500000000000"
    using gas_ceiling_integer_part [of 1000000000000 None 0] by simp
  have 3: "calculate_max_gas_price (Some 40000000000) 1000000000007 = 40000000000"
    using gas_ceiling_integer_part [of 1000000000007 "Some 40000000000" 0] by simp
  have 4: "calculate_max_gas_price (Some 2000000000000) 1000000000007 = 1200000000008"
    using gas_ceiling_integer_part [of 1000000000007 "Some 2000000000000" 0] by simp
  from 1 2 3 4 show ?thesis by (intro conjI)
qed

text \<open>C9 as stated fails: for the reading \<open>2\<^sup>5\<^sup>3 + 1\<close> and an absolute maximum of
  \<open>2 \<sqdot> 10\<^sup>1\<^sup>6\<close> the exact minimum is \<open>10808639105689191.6\<close>, and the code returns
  \<open>10808639105689190\<close>, which is neither its integer part nor the integer next to it.\<close>

theorem gas_ceiling_not_exact:
  "calculate_max_gas_price (Some (2 * 10 ^ 16)) 9007199254740993 = 10808639105689190
   \<and> min (of_int 9007199254740993 * (12 / 10)) (of_int (2 * 10 ^ 16))
       = (54043195528445958 / 5 :: rat)
   \<and> \<lfloor>54043195528445958 / 5 :: rat\<rfloor> = 10808639105689191"
  by code_simp

end
